theory Spec2Isabelle
  imports Complex_Main
begin

section \<open>Strings\<close>

text \<open>
  A JavaScript string is a sequence of UTF-16 code units, each a number from 0 to 65535;
  the Hebrew literals of the source are written here by their code units (U+05D0 is
  1488).  \<open>length\<close> on this type is the \<open>.length\<close> of the source.
\<close>

type_synonym jstring = "int list"

text \<open>The characters matched by \<open>\s\<close> and removed by \<open>trim()\<close> (ECMAScript WhiteSpace and
  LineTerminator).\<close>

definition isWhitespace :: "int \<Rightarrow> bool" where
  "isWhitespace c =
     (c = 9 \<or> c = 10 \<or> c = 11 \<or> c = 12 \<or> c = 13 \<or> c = 32 \<or> c = 160 \<or> c = 5760 \<or>
      (8192 \<le> c \<and> c \<le> 8202) \<or> c = 8232 \<or> c = 8233 \<or> c = 8239 \<or> c = 8287 \<or>
      c = 12288 \<or> c = 65279)"

text \<open>\<open>toLowerCase()\<close> on the Basic Latin letters; Hebrew has no case, and cased letters
  outside Basic Latin are left as they are by this model.\<close>

definition toLowerCase :: "jstring \<Rightarrow> jstring" where
  "toLowerCase s = map (\<lambda>c. if 65 \<le> c \<and> c \<le> 90 then c + 32 else c) s"

definition trim :: "jstring \<Rightarrow> jstring" where
  "trim s = rev (dropWhile isWhitespace (rev (dropWhile isWhitespace s)))"

text \<open>\<open>s.includes(p)\<close>: \<open>p\<close> occurs in \<open>s\<close> at some position.\<close>

fun includesStr :: "jstring \<Rightarrow> jstring \<Rightarrow> bool" where
  "includesStr [] p = (p = [])"
| "includesStr (c # cs) p = (take (length p) (c # cs) = p \<or> includesStr cs p)"

text \<open>\<open>replace(/\s+/g, ' ')\<close>: every maximal run of white space becomes one space.  The flag
  says whether the previous character belonged to a run that was already replaced.\<close>

fun collapseSpaces :: "bool \<Rightarrow> jstring \<Rightarrow> jstring" where
  "collapseSpaces inRun [] = []"
| "collapseSpaces inRun (c # cs) =
     (if isWhitespace c then (if inRun then collapseSpaces True cs else 32 # collapseSpaces True cs)
      else c # collapseSpaces False cs)"

text \<open>\<open>GPTService.normalizeForCache\<close>: lower case, trim, drop \<open>? ! . ,\<close>, collapse white
  space, keep the first 100 code units.\<close>

definition normalizeForCache :: "jstring \<Rightarrow> jstring" where
  "normalizeForCache message =
     take 100 (collapseSpaces False
       (filter (\<lambda>c. c \<noteq> 63 \<and> c \<noteq> 33 \<and> c \<noteq> 46 \<and> c \<noteq> 44) (trim (toLowerCase message))))"

section \<open>Intent detection (\<open>gpt.service.js\<close>)\<close>

datatype intent =
  reservation | hours | menu | location | cancel | confirm | deny | complaint | faq
  | general | error

text \<open>A pattern of \<open>intentPatterns\<close> is a string (tested with \<open>includes\<close>) or a regular
  expression (tested with \<open>test\<close>, which searches anywhere in the text).  The two regular
  expressions of the source are a character class of two letters followed by a fixed
  word, and a fixed word followed by an alternative of two words; each denotes the two
  strings listed under \<open>Rx\<close>.\<close>

datatype pattern = Lit jstring | Rx "jstring list"

fun matches :: "pattern \<Rightarrow> jstring \<Rightarrow> bool" where
  "matches (Lit p) s = includesStr s p"
| "matches (Rx alts) s = list_ex (includesStr s) alts"

definition intentPatterns :: "(intent \<times> pattern list) list" where
  "intentPatterns = [
    (reservation, [
      Lit [1492, 1494, 1502, 1504, 1492],
      Lit [1500, 1492, 1494, 1502, 1497, 1503],
      Lit [1513, 1493, 1500, 1495, 1503],
      Lit [1502, 1511, 1493, 1501],
      Lit [1514, 1493, 1512],
      Rx [[1512, 1493, 1510, 1492, 32, 1500, 1492, 1494, 1502, 1497, 1503],
          [1512, 1493, 1510, 1497, 32, 1500, 1492, 1494, 1502, 1497, 1503]],
      Rx [[1488, 1508, 1513, 1512, 32, 1500, 1492, 1494, 1502, 1497, 1503],
          [1488, 1508, 1513, 1512, 32, 1500, 1511, 1489, 1493, 1506]],
      Lit [1512, 1497, 1494, 1512, 1489],
      Lit [1489, 1493, 1511, 1497, 1504, 1490]]),
    (hours, [
      Lit [1513, 1506, 1493, 1514, 32, 1508, 1514, 1497, 1495, 1492],
      Lit [1502, 1514, 1497, 32, 1508, 1514, 1493, 1495],
      Lit [1502, 1514, 1497, 32, 1505, 1493, 1490, 1512],
      Lit [1513, 1506, 1493, 1514, 32, 1508, 1506, 1497, 1500, 1493, 1514],
      Lit [1508, 1514, 1493, 1495, 32, 1492, 1497, 1493, 1501],
      Lit [1508, 1514, 1493, 1495, 1497, 1501],
      Lit [1506, 1491, 32, 1502, 1514, 1497],
      Lit [1502, 1513, 1506, 1492]]),
    (menu, [
      Lit [1514, 1508, 1512, 1497, 1496],
      Lit [1502, 1504, 1493, 1514],
      Lit [1488, 1493, 1499, 1500],
      Lit [1502, 1492, 32, 1497, 1513],
      Lit [1502, 1495, 1497, 1512, 1497, 1501],
      Lit [1510, 1502, 1495, 1493, 1504, 1497],
      Lit [1496, 1489, 1506, 1493, 1504, 1497],
      Lit [1499, 1513, 1512],
      Lit [1488, 1500, 1512, 1490, 1497, 1492]]),
    (location, [
      Lit [1488, 1497, 1508, 1492],
      Lit [1499, 1514, 1493, 1489, 1514],
      Lit [1502, 1497, 1511, 1493, 1501],
      Lit [1488, 1497, 1498, 32, 1502, 1490, 1497, 1506, 1497, 1501],
      Lit [1495, 1504, 1497, 1492],
      Lit [1504, 1493, 1493, 1496],
      Lit [1493, 1493, 1497, 1494],
      Lit [1490, 1493, 1490, 1500, 32, 1502, 1508, 1493, 1514]]),
    (cancel, [
      Lit [1500, 1489, 1496, 1500],
      Lit [1489, 1497, 1496, 1493, 1500],
      Lit [1500, 1513, 1504, 1493, 1514, 32, 1492, 1494, 1502, 1504, 1492],
      Lit [1500, 1491, 1495, 1493, 1514]]),
    (confirm, [
      Lit [1499, 1503],
      Lit [1504, 1499, 1493, 1503],
      Lit [1489, 1505, 1491, 1512],
      Lit [1502, 1488, 1513, 1512],
      Lit [1488, 1497, 1513, 1493, 1512],
      Lit [1489, 1491, 1497, 1493, 1511],
      Lit [1494, 1492, 1493],
      Lit [1496, 1493, 1489]]),
    (deny, [
      Lit [1500, 1488],
      Lit [1488, 1500],
      Lit [1500, 1488, 32, 1512, 1493, 1510, 1492],
      Lit [1489, 1497, 1497],
      Lit [1500, 1492, 1514, 1512, 1488, 1493, 1514],
      Lit [1514, 1493, 1491, 1492, 32, 1494, 1492, 1493],
      Lit [1505, 1497, 1497, 1502, 1514, 1497]]),
    (complaint, [
      Lit [1514, 1500, 1493, 1504, 1492],
      Lit [1489, 1506, 1497, 1492],
      Lit [1500, 1488, 32, 1502, 1512, 1493, 1510, 1492],
      Lit [1490, 1512, 1493, 1506],
      Lit [1504, 1493, 1512, 1488],
      Lit [1502, 1514, 1500, 1493, 1504, 1503],
      Lit [1512, 1493, 1510, 1492, 32, 1502, 1504, 1492, 1500]]),
    (faq, [
      Lit [1497, 1513],
      Lit [1492, 1488, 1501],
      Lit [1488, 1508, 1513, 1512],
      Lit [1502, 1511, 1489, 1500, 1497, 1501],
      Lit [1506, 1493, 1489, 1491]])]"

text \<open>\<open>GPTService.detectIntent\<close>: the intents in declaration order, the first one with a
  matching pattern wins, \<open>general\<close> when none matches.\<close>

definition detectIntent :: "jstring \<Rightarrow> intent" where
  "detectIntent message =
     (let normalized = trim (toLowerCase message) in
      case find (\<lambda>(i, patterns). list_ex (\<lambda>p. matches p normalized) patterns) intentPatterns of
        Some (i, patterns) \<Rightarrow> i
      | None \<Rightarrow> general)"

section \<open>The FAQ cache (\<open>gpt.service.js\<close>)\<close>

text \<open>The fields of the Business document that the modelled functions read.  The Business
  model itself is not among the sources; \<open>greeting\<close> stands for the text composed by
  \<open>generateGreeting\<close> from it.\<close>

record business =
  b_id :: jstring
  greeting :: jstring
  goodbyeMessage :: "jstring option"
  enableAutoFAQ :: bool
  maxPartySize :: int

record faqEntry =
  answer :: jstring
  faqIntent :: intent
  cachedAt :: int

text \<open>\<open>new NodeCache({ stdTTL: 3600 })\<close>: every entry carries the time in milliseconds at
  which it expires, \<open>set\<close> stores \<open>now + stdTTL * 1000\<close>, and \<open>get\<close> returns nothing for a key
  that is absent or whose time lies before now.\<close>

type_synonym faqCache = "jstring \<rightharpoonup> faqEntry \<times> int"

definition stdTTL :: int where
  "stdTTL = 3600"

definition cacheGet :: "faqCache \<Rightarrow> int \<Rightarrow> jstring \<Rightarrow> faqEntry option" where
  "cacheGet c t k =
     (case c k of None \<Rightarrow> None
      | Some (v, expires) \<Rightarrow> if expires < t then None else Some v)"

definition cacheSet :: "faqCache \<Rightarrow> int \<Rightarrow> jstring \<Rightarrow> faqEntry \<Rightarrow> faqCache" where
  "cacheSet c t k v = c(k \<mapsto> (v, t + stdTTL * 1000))"

text \<open>The key \<open>`faq:${businessId}:${normalizeForCache(message)}`\<close>.\<close>

definition faqKey :: "jstring \<Rightarrow> jstring \<Rightarrow> jstring" where
  "faqKey businessId message = [102, 97, 113, 58] @ businessId @ [58] @ normalizeForCache message"

definition checkFAQCache :: "faqCache \<Rightarrow> int \<Rightarrow> jstring \<Rightarrow> business \<Rightarrow> faqEntry option" where
  "checkFAQCache c t message b = cacheGet c t (faqKey (b_id b) message)"

definition cacheResponse ::
  "faqCache \<Rightarrow> int \<Rightarrow> jstring \<Rightarrow> jstring \<Rightarrow> intent \<Rightarrow> jstring \<Rightarrow> faqCache" where
  "cacheResponse c t message response i businessId =
     cacheSet c t (faqKey businessId message) \<lparr>answer = response, faqIntent = i, cachedAt = t\<rparr>"

section \<open>Response generation (\<open>GPTService.generateResponse\<close>)\<close>

datatype role = user | assistant

record turn =
  turnRole :: role
  content :: jstring
  timestamp :: int
  confidence :: "real option"
  turnIntent :: "intent option"
  tokens :: "nat option"

text \<open>The object parsed from the extraction reply.  A key of the JSON object is absent
  (\<open>None\<close>), present with \<open>null\<close> (\<open>Some None\<close>) or present with a value.\<close>

record extracted =
  x_date :: "jstring option option"
  x_time :: "jstring option option"
  x_partySize :: "int option option"
  x_customerName :: "jstring option option"
  x_customerPhone :: "jstring option option"
  x_specialRequests :: "jstring option option"

text \<open>
  What the collaborators do during one webhook event.  \<open>completion\<close> is the outcome of the
  chat completion (\<open>None\<close>: the call throws, which includes a client that was never
  configured; otherwise the text and \<open>usage.total_tokens\<close>); \<open>extraction\<close> is the outcome of the
  extraction call followed by \<open>JSON.parse\<close> (\<open>None\<close>: either throws, or the reply is
  \<open>null\<close>); \<open>ttsOk\<close> says that \<open>ttsService.generateAudioUrl\<close> returns rather than throws;
  \<open>storeOk\<close> says that the database answers (when it does not, the first query of the event
  throws); \<open>dateOf\<close> is \<open>new Date(string)\<close> as milliseconds, \<open>None\<close> for an invalid date;
  \<open>now\<close> is \<open>Date.now()\<close>, read once per event.  The prompt sent to the language model is
  not modelled: its reply is an input.  \<open>ErrorModel.logError\<close> is taken to return.
\<close>

record env =
  now :: int
  completion :: "(jstring \<times> nat) option"
  extraction :: "extracted option"
  ttsOk :: bool
  storeOk :: bool
  dateOf :: "jstring \<Rightarrow> int option"

datatype gptModel = fast | smart | cacheHit

datatype source = faq_cache | gpt

record gptResponse =
  resp_text :: jstring
  resp_intent :: intent
  resp_source :: "source option"
  tokensUsed :: "nat option"
  resp_model :: "gptModel option"
  extractedData :: "extracted option"
  resp_error :: bool

text \<open>\<open>GPTService.selectModel\<close>.\<close>

definition selectModel :: "intent \<Rightarrow> jstring \<Rightarrow> turn list \<Rightarrow> gptModel" where
  "selectModel i message history =
     (if i \<in> set [hours, location, confirm, deny, faq] then fast
      else if length history < 4 \<and> length message < 50 then fast
      else if i \<in> set [reservation, complaint, cancel] \<and>
              (length history > 6 \<or> length message > 100) then smart
      else fast)"

text \<open>The fixed reply of the \<open>catch\<close> branch of \<open>generateResponse\<close>.\<close>

definition fallbackText :: jstring where
  "fallbackText = [1505, 1500, 1497, 1495, 1492, 44, 32, 1500, 1488, 32, 1492, 1510, 1500, 1495,
     1514, 1497, 32, 1500, 1492, 1489, 1497, 1503, 46, 32, 1488, 1508, 1513, 1512, 32, 1500, 1495,
     1494, 1493, 1512, 32, 1506, 1500, 32, 1494, 1492, 63]"

text \<open>\<open>GPTService.extractStructuredData\<close>: no call unless the intent is \<open>reservation\<close>;
  the second component counts the calls to the language model.\<close>

definition extractStructuredData :: "env \<Rightarrow> intent \<Rightarrow> extracted option \<times> nat" where
  "extractStructuredData e i =
     (if i \<noteq> reservation then (None, 0) else (extraction e, 1))"

text \<open>
  \<open>GPTService.generateResponse\<close>.  It returns the response, the FAQ cache after the call and
  the number of calls made to the language model (\<open>openai.chat.completions.create\<close>).
  Steps as in the source: 1 cache lookup, 2 intent, 3 model, 6 completion, 7 extraction,
  8 caching of informational answers; the \<open>catch\<close> branch returns the fallback.
\<close>

definition generateResponse ::
  "env \<Rightarrow> faqCache \<Rightarrow> business \<Rightarrow> jstring \<Rightarrow> turn list \<Rightarrow> gptResponse \<times> faqCache \<times> nat" where
  "generateResponse e c b userMessage conversationHistory =
     (case checkFAQCache c (now e) userMessage b of
        Some faqResponse \<Rightarrow>
          (\<lparr>resp_text = answer faqResponse, resp_intent = faqIntent faqResponse,
            resp_source = Some faq_cache, tokensUsed = Some 0, resp_model = Some cacheHit,
            extractedData = None, resp_error = False\<rparr>, c, 0)
      | None \<Rightarrow>
          (let i = detectIntent userMessage;
               m = selectModel i userMessage conversationHistory
           in case completion e of
                None \<Rightarrow>
                  (\<lparr>resp_text = fallbackText, resp_intent = error, resp_source = None,
                    tokensUsed = None, resp_model = None, extractedData = None,
                    resp_error = True\<rparr>, c, 1)
              | Some (response, used) \<Rightarrow>
                  (let (ex, n) = extractStructuredData e i;
                       c' = (if i = faq \<or> i = hours \<or> i = location
                             then cacheResponse c (now e) userMessage response i (b_id b) else c)
                   in (\<lparr>resp_text = response, resp_intent = i, resp_source = Some gpt,
                        tokensUsed = Some used, resp_model = Some m, extractedData = ex,
                        resp_error = False\<rparr>, c', 1 + n))))"

section \<open>Reservations (\<open>Reservation.model.js\<close>)\<close>

datatype resStatus = pending | confirmed | cancelled | res_completed | no_show

text \<open>A stored reservation: the fields that the availability check and the booking write.
  A date is a time in milliseconds.\<close>

record reservation =
  r_business :: jstring
  r_call :: "jstring option"
  customerName :: jstring
  customerPhone :: jstring
  r_date :: int
  r_time :: jstring
  partySize :: int
  r_status :: resStatus
  specialRequests :: "jstring option"

record availability =
  available :: bool
  currentBookings :: nat
  currentGuests :: int
  remainingCapacity :: int

datatype failure =
  BusinessNotFound | StoreUnavailable | InvalidDate | ValidationFailed | TypeError
  | SynthesisFailed

text \<open>\<open>setHours(0, 0, 0, 0)\<close> and \<open>setHours(23, 59, 59, 999)\<close>, with the server's time zone
  taken to be UTC.\<close>

definition startOfDay :: "int \<Rightarrow> int" where
  "startOfDay d = (d div 86400000) * 86400000"

definition endOfDay :: "int \<Rightarrow> int" where
  "endOfDay d = startOfDay d + 86399999"

definition maxCapacityPerSlot :: int where
  "maxCapacityPerSlot = 50"

text \<open>The query of \<open>checkAvailability\<close>: same business, same day, same time string, status
  \<open>pending\<close> or \<open>confirmed\<close>.\<close>

definition existingReservations ::
  "reservation list \<Rightarrow> jstring \<Rightarrow> int \<Rightarrow> jstring \<Rightarrow> reservation list" where
  "existingReservations rs businessId date time =
     filter (\<lambda>r. r_business r = businessId \<and> startOfDay date \<le> r_date r \<and> r_date r \<le> endOfDay date
                 \<and> r_time r = time \<and> r_status r \<in> set [pending, confirmed]) rs"

text \<open>\<open>ReservationSchema.statics.checkAvailability\<close>.  It throws when the business is not
  found.  The business is looked up and then not consulted: the capacity is the constant.\<close>

definition checkAvailability ::
  "(jstring \<rightharpoonup> business) \<Rightarrow> reservation list \<Rightarrow> jstring \<Rightarrow> int \<Rightarrow> jstring \<Rightarrow> int
     \<Rightarrow> failure + availability" where
  "checkAvailability bs rs businessId date time requested =
     (case bs businessId of
        None \<Rightarrow> Inl BusinessNotFound
      | Some b \<Rightarrow>
          (let existing = existingReservations rs businessId date time;
               totalGuests = sum_list (map partySize existing)
           in Inr \<lparr>available = (totalGuests + requested \<le> maxCapacityPerSlot),
                   currentBookings = length existing,
                   currentGuests = totalGuests,
                   remainingCapacity = maxCapacityPerSlot - totalGuests\<rparr>))"

text \<open>The document handed to \<open>Reservation.create\<close>; the phone may be \<open>undefined\<close>.\<close>

record reservationInput =
  in_business :: jstring
  in_call :: "jstring option"
  in_customerName :: jstring
  in_customerPhone :: "jstring option"
  in_date :: int
  in_time :: jstring
  in_partySize :: int
  in_specialRequests :: "jstring option"

text \<open>\<open>Reservation.create\<close> with \<open>status: 'confirmed'\<close>: the schema's validators (name, phone,
  time required and not empty; party size between 1 and 100) run first, and a failure
  throws.\<close>

definition reservationCreate :: "reservation list \<Rightarrow> reservationInput \<Rightarrow> failure + reservation list" where
  "reservationCreate rs d =
     (case in_customerPhone d of
        None \<Rightarrow> Inl ValidationFailed
      | Some phone \<Rightarrow>
          if in_customerName d = [] \<or> phone = [] \<or> in_time d = []
             \<or> in_partySize d < 1 \<or> 100 < in_partySize d
          then Inl ValidationFailed
          else Inr (rs @ [\<lparr>r_business = in_business d, r_call = in_call d,
                           customerName = in_customerName d, customerPhone = phone,
                           r_date = in_date d, r_time = in_time d, partySize = in_partySize d,
                           r_status = confirmed, specialRequests = in_specialRequests d\<rparr>]))"

text \<open>The committed occupancy of a slot: the guests of its pending and confirmed
  reservations.\<close>

definition occupancy :: "reservation list \<Rightarrow> jstring \<Rightarrow> int \<Rightarrow> jstring \<Rightarrow> int" where
  "occupancy rs businessId date time =
     sum_list (map partySize (existingReservations rs businessId date time))"

section \<open>The call handler (\<open>CallHandlerService\<close>)\<close>

subsection \<open>Sessions, records and events\<close>

text \<open>\<open>callState.reservationData\<close>.  A field is \<open>None\<close> when it is \<open>undefined\<close> or \<open>null\<close>: the
  source only tests these fields for truthiness or reads them behind \<open>||\<close>.\<close>

record draft =
  d_date :: "jstring option"
  d_time :: "jstring option"
  d_partySize :: "int option"
  d_customerName :: "jstring option"
  d_customerPhone :: "jstring option"
  d_specialRequests :: "jstring option"

definition emptyDraft :: draft where
  "emptyDraft = \<lparr>d_date = None, d_time = None, d_partySize = None, d_customerName = None,
     d_customerPhone = None, d_specialRequests = None\<rparr>"

text \<open>The spread \<open>{ ...reservationData, ...extractedData }\<close>: every key present in the
  extracted object overwrites the draft, also with \<open>null\<close>.\<close>

definition mergeField :: "'a option \<Rightarrow> 'a option option \<Rightarrow> 'a option" where
  "mergeField old x = (case x of None \<Rightarrow> old | Some v \<Rightarrow> v)"

definition mergeDraft :: "draft \<Rightarrow> extracted \<Rightarrow> draft" where
  "mergeDraft d x =
     \<lparr>d_date = mergeField (d_date d) (x_date x),
      d_time = mergeField (d_time d) (x_time x),
      d_partySize = mergeField (d_partySize d) (x_partySize x),
      d_customerName = mergeField (d_customerName d) (x_customerName x),
      d_customerPhone = mergeField (d_customerPhone d) (x_customerPhone x),
      d_specialRequests = mergeField (d_specialRequests d) (x_specialRequests x)\<rparr>"

text \<open>The entry of \<open>activeCalls\<close>.  \<open>timeoutCount\<close> is \<open>undefined\<close> until the first timeout.\<close>

record callState =
  callId :: jstring
  businessId :: jstring
  conversation :: "turn list"
  currentIntent :: "intent option"
  reservationData :: draft
  turnCount :: nat
  startTime :: int
  timeoutCount :: "nat option"

datatype endReason = completed | timeout | no_state

datatype callStatus = initiated | call_completed

text \<open>The Call document, without its cost fields (the save hook that fills them is the
  subject of the last section).  The document of a call is found by the call's id, which
  stands here for both \<open>_id\<close> and the unique \<open>twilioCallSid\<close>.\<close>

record callDoc =
  cd_business :: jstring
  cd_status :: callStatus
  cd_endReason :: "endReason option"
  cd_duration :: int
  cd_conversation :: "turn list"
  cd_turnCount :: nat
  cd_primaryIntent :: "intent option"

datatype callEvent =
    CallStarted jstring jstring
  | CallTurn jstring jstring jstring jstring intent nat
  | CallEnded jstring "jstring option" endReason int
  | ReservationCreated jstring draft

datatype room = AdminRoom | BusinessRoom jstring

text \<open>
  The service and the store it talks to: the session map, the FAQ cache, whether a
  Socket.IO instance is set, what was emitted to which room, the Business, Call and
  Reservation collections, and two counters that observe the run: the calls made to the
  language model, and, for every call id, the bookings attempted (invocations of
  \<open>createReservation\<close>).
\<close>

record world =
  activeCalls :: "jstring \<rightharpoonup> callState"
  faqs :: faqCache
  io :: bool
  emitted :: "(room \<times> callEvent) list"
  businesses :: "jstring \<rightharpoonup> business"
  calls :: "jstring \<rightharpoonup> callDoc"
  reservations :: "reservation list"
  modelCalls :: nat
  attempts :: "jstring \<Rightarrow> nat"

datatype route = respondRoute | timeoutRoute | endRoute

text \<open>The directives of a TwiML response, in order.  \<open>Play\<close> carries the text that was
  synthesized; a \<open>Gather\<close> always posts to the respond route.\<close>

datatype directive = Play jstring | Say jstring | Gather | Redirect route | Hangup

text \<open>\<open>emitCallEvent\<close>: to the admin room, and to the business room when the payload has a
  business id; nothing without a Socket.IO instance.\<close>

definition emitCallEvent :: "world \<Rightarrow> callEvent \<Rightarrow> jstring option \<Rightarrow> world" where
  "emitCallEvent w ev bid =
     (if io w
      then w\<lparr>emitted := emitted w @ [(AdminRoom, ev)] @
                (case bid of None \<Rightarrow> [] | Some b \<Rightarrow> [(BusinessRoom b, ev)])\<rparr>
      else w)"

subsection \<open>Booking\<close>

definition truthyStr :: "jstring option \<Rightarrow> bool" where
  "truthyStr v = (case v of None \<Rightarrow> False | Some s \<Rightarrow> s \<noteq> [])"



definition defaultCustomer :: jstring where
  "defaultCustomer = [1500, 1511, 1493, 1495]"

text \<open>
  \<open>createReservation\<close> has two parts, each ending at an \<open>await\<close>.  The first reads: it turns
  the draft's date into a \<open>Date\<close>, calls \<open>checkAvailability\<close> and returns \<open>null\<close> when the slot
  is not available.  It is modelled by \<open>bookingCheck\<close>, whose result is the document to be
  created, or \<open>None\<close> when the function returns \<open>null\<close> at this point (slot not available,
  or an exception, which the \<open>catch\<close> turns into \<open>null\<close>).  \<open>callState.callerNumber\<close> is never
  set, so the phone is the draft's or \<open>undefined\<close>.  A draft without date, time or party
  size (on which the function is never called) makes the query throw or the slot
  unavailable.
\<close>

definition bookingCheck :: "world \<Rightarrow> env \<Rightarrow> callState \<Rightarrow> business \<Rightarrow> reservationInput option" where
  "bookingCheck w e cs b =
     (let dat = reservationData cs
      in if \<not> storeOk e then None
         else case (d_date dat, d_time dat, d_partySize dat) of
           (Some ds, Some t, Some n) \<Rightarrow>
             (case dateOf e ds of
                None \<Rightarrow> None
              | Some date \<Rightarrow>
                  (case checkAvailability (businesses w) (reservations w) (b_id b) date t n of
                     Inl err \<Rightarrow> None
                   | Inr a \<Rightarrow>
                       if \<not> available a then None
                       else Some \<lparr>in_business = b_id b, in_call = Some (callId cs),
                                  in_customerName =
                                    (case d_customerName dat of
                                       None \<Rightarrow> defaultCustomer
                                     | Some nm \<Rightarrow> if nm = [] then defaultCustomer else nm),
                                  in_customerPhone =
                                    (if truthyStr (d_customerPhone dat) then d_customerPhone dat
                                     else None),
                                  in_date = date, in_time = t, in_partySize = n,
                                  in_specialRequests = d_specialRequests dat\<rparr>))
         | _ \<Rightarrow> None)"

text \<open>The second part writes: \<open>Reservation.create\<close>, then the \<open>reservation:created\<close> event.  The
  result says whether a reservation is returned.  The two updates between them (the
  call's reservation reference and the business counter) are not modelled.\<close>

definition bookingCommit :: "world \<Rightarrow> business \<Rightarrow> draft \<Rightarrow> reservationInput \<Rightarrow> bool \<times> world" where
  "bookingCommit w b dat inp =
     (case reservationCreate (reservations w) inp of
        Inl err \<Rightarrow> (False, w)
      | Inr rs \<Rightarrow>
          (True, emitCallEvent (w\<lparr>reservations := rs\<rparr>) (ReservationCreated (b_id b) dat)
                   (Some (b_id b))))"

text \<open>\<open>createReservation\<close> run without interruption; every invocation is counted as a booking
  attempt of the call.\<close>

definition createReservation :: "world \<Rightarrow> env \<Rightarrow> callState \<Rightarrow> business \<Rightarrow> bool \<times> world" where
  "createReservation w e cs b =
     (let w0 = w\<lparr>attempts := (attempts w)(callId cs := attempts w (callId cs) + 1)\<rparr>
      in case bookingCheck w0 e cs b of
           None \<Rightarrow> (False, w0)
         | Some inp \<Rightarrow> bookingCommit w0 b (reservationData cs) inp)"

text \<open>
  Several invocations of \<open>createReservation\<close> in flight at once.  The runtime runs one
  of them at a time and switches at an \<open>await\<close>, so an invocation is before its check,
  between its check and its write, or finished.  A schedule names, step by step, the
  invocation that runs next.
\<close>

datatype task =
    Waiting env callState business
  | Checked callState business reservationInput
  | Returned bool

fun stepTask :: "world \<Rightarrow> task \<Rightarrow> task \<times> world" where
  "stepTask w (Waiting e cs b) =
     (let w0 = w\<lparr>attempts := (attempts w)(callId cs := attempts w (callId cs) + 1)\<rparr>
      in case bookingCheck w0 e cs b of
           None \<Rightarrow> (Returned False, w0)
         | Some inp \<Rightarrow> (Checked cs b inp, w0))"
| "stepTask w (Checked cs b inp) =
     (let (created, w') = bookingCommit w b (reservationData cs) inp in (Returned created, w'))"
| "stepTask w (Returned r) = (Returned r, w)"

fun interleave :: "world \<Rightarrow> task list \<Rightarrow> nat list \<Rightarrow> task list \<times> world" where
  "interleave w ts [] = (ts, w)"
| "interleave w ts (i # schedule) =
     (if i < length ts
      then (let (t, w') = stepTask w (ts ! i) in interleave w' (ts[i := t]) schedule)
      else interleave w ts schedule)"

text \<open>What an invocation has returned: nothing yet, or whether it created a reservation.\<close>

fun taskResult :: "task \<Rightarrow> bool option" where
  "taskResult (Returned created) = Some created"
| "taskResult (Waiting e cs b) = None"
| "taskResult (Checked cs b inp) = None"

text \<open>The same invocations one after the other, each run to its end.\<close>

fun sequential :: "world \<Rightarrow> (env \<times> callState \<times> business) list \<Rightarrow> bool list \<times> world" where
  "sequential w [] = ([], w)"
| "sequential w ((e, cs, b) # rest) =
     (let (created, w') = createReservation w e cs b;
          (results, w'') = sequential w' rest
      in (created # results, w''))"

subsection \<open>Ending a call\<close>



text \<open>The values that the Call schema accepts for \<open>primaryIntent\<close> (its \<open>enum\<close>, of which
  \<open>inquiry\<close> and \<open>unknown\<close> are never assigned); \<open>call.save()\<close> throws a validation error on
  any other value.\<close>

definition primaryIntentEnum :: "intent \<Rightarrow> bool" where
  "primaryIntentEnum i = (i \<in> set [reservation, menu, hours, location, complaint, general])"

definition defaultGoodbye :: jstring where
  "defaultGoodbye = [1514, 1493, 1491, 1492, 32, 1513, 1492, 1514, 1511, 1513, 1512, 1514, 46, 32,
     1497, 1493, 1501, 32, 1504, 1506, 1497, 1501, 33]"

definition goodbyeText :: "business \<Rightarrow> jstring" where
  "goodbyeText b =
     (case goodbyeMessage b of None \<Rightarrow> defaultGoodbye
      | Some g \<Rightarrow> if g = [] then defaultGoodbye else g)"

text \<open>\<open>Math.round((Date.now() - startTime) / 1000)\<close> on whole milliseconds.\<close>

definition durationSeconds :: "int \<Rightarrow> int \<Rightarrow> int" where
  "durationSeconds t start = (t - start + 500) div 1000"

text \<open>
  The block \<open>if (callState) { ... }\<close> of \<open>handleCallEnd\<close>: find the Call document; when it
  exists, summarise a non-empty conversation (one call to the language model, whose own
  errors are caught), read \<open>business.aiConfig\<close> (a \<open>TypeError\<close> without a business), detect
  missing information when the business enables it (one more call), fill the document
  and save it.  The first component is the exception thrown, if any; what was done before
  it stays done.  The refresh of the business statistics and the list of missing
  information are not modelled.
\<close>

definition finalizeCall ::
  "world \<Rightarrow> env \<Rightarrow> endReason \<Rightarrow> callState \<Rightarrow> business option \<Rightarrow> failure option \<times> world" where
  "finalizeCall w e reason cs bo =
     (if \<not> storeOk e then (Some StoreUnavailable, w)
      else case calls w (callId cs) of
        None \<Rightarrow> (None, w)
      | Some call \<Rightarrow>
          (let w1 = (if conversation cs \<noteq> [] then w\<lparr>modelCalls := modelCalls w + 1\<rparr> else w)
           in case bo of
                None \<Rightarrow> (Some TypeError, w1)
              | Some b \<Rightarrow>
                  (let w2 = (if enableAutoFAQ b then w1\<lparr>modelCalls := modelCalls w1 + 1\<rparr> else w1);
                       primary = (case currentIntent cs of None \<Rightarrow> general | Some i \<Rightarrow> i)
                   in if \<not> primaryIntentEnum primary then (Some ValidationFailed, w2)
                      else (None, w2\<lparr>calls := (calls w2)(callId cs \<mapsto>
                              call\<lparr>cd_status := call_completed, cd_endReason := Some reason,
                                   cd_duration := durationSeconds (now e) (startTime cs),
                                   cd_conversation := conversation cs,
                                   cd_turnCount := turnCount cs,
                                   cd_primaryIntent := Some primary\<rparr>)\<rparr>))))"

text \<open>
  \<open>handleCallEnd(callSid, reason, callState, business)\<close>; the last two arguments may be
  missing.  In the \<open>try\<close> block: the goodbye is synthesized when there is a business, the
  call is finalized when there is a session, the session is deleted and \<open>call:ended\<close> is
  emitted.  An exception anywhere in the block leads to the \<open>catch\<close> branch, which answers
  with a bare hangup: the session is then not deleted and nothing is emitted.
\<close>

definition handleCallEnd ::
  "world \<Rightarrow> env \<Rightarrow> jstring \<Rightarrow> endReason \<Rightarrow> callState option \<Rightarrow> business option
     \<Rightarrow> directive list \<times> world" where
  "handleCallEnd w e callSid reason cso bo =
     (if bo \<noteq> None \<and> \<not> ttsOk e then ([Hangup], w)
      else
        (let (thrown, w1) = (case cso of None \<Rightarrow> (None, w)
                             | Some cs \<Rightarrow> finalizeCall w e reason cs bo)
         in case thrown of
              Some err \<Rightarrow> ([Hangup], w1)
            | None \<Rightarrow>
                (let w2 = w1\<lparr>activeCalls := (activeCalls w1)(callSid := None)\<rparr>;
                     duration = (case cso of None \<Rightarrow> 0
                                 | Some cs \<Rightarrow> durationSeconds (now e) (startTime cs));
                     w3 = emitCallEvent w2
                            (CallEnded callSid (map_option b_id bo) reason duration)
                            (map_option b_id bo)
                 in ((case bo of None \<Rightarrow> [] | Some b \<Rightarrow> [Play (goodbyeText b)]) @ [Hangup],
                     w3))))"

subsection \<open>Incoming calls, speech and silence\<close>




definition promptMessage :: jstring where
  "promptMessage = [1492, 1488, 1501, 32, 1488, 1514, 1492, 32, 1506, 1491, 1497, 1497, 1503, 32,
     1513, 1501, 63]"



text \<open>
  \<open>handleTimeout\<close>.  The business comes from a lookup that the route does not check, so it
  may be missing.  The function has no \<open>try\<close>: a failing synthesis of the prompt (or a
  missing business) throws to the route, after the count was incremented.
\<close>

definition handleTimeout ::
  "world \<Rightarrow> env \<Rightarrow> business option \<Rightarrow> jstring \<Rightarrow> (failure + directive list) \<times> world" where
  "handleTimeout w e bo callSid =
     (case activeCalls w callSid of
        None \<Rightarrow> (let (ds, w') = handleCallEnd w e callSid timeout None None in (Inr ds, w'))
      | Some cs \<Rightarrow>
          (let k = (case timeoutCount cs of None \<Rightarrow> 0 | Some j \<Rightarrow> j) + 1;
               cs1 = cs\<lparr>timeoutCount := Some k\<rparr>;
               w1 = w\<lparr>activeCalls := (activeCalls w)(callSid \<mapsto> cs1)\<rparr>
           in if k \<ge> 2
              then (let (ds, w') = handleCallEnd w1 e callSid timeout (Some cs1) bo in (Inr ds, w'))
              else case bo of
                     None \<Rightarrow> (Inl TypeError, w1)
                   | Some b \<Rightarrow>
                       if \<not> ttsOk e then (Inl SynthesisFailed, w1)
                       else (Inr [Play promptMessage, Gather, Redirect endRoute], w1)))"

subsection \<open>The webhook routes\<close>





text \<open>A service that has just started, over a store with the given businesses.\<close>

definition initialWorld :: "(jstring \<rightharpoonup> business) \<Rightarrow> bool \<Rightarrow> world" where
  "initialWorld bs sock =
     \<lparr>activeCalls = Map.empty, faqs = Map.empty, io = sock, emitted = [], businesses = bs,
      calls = Map.empty, reservations = [], modelCalls = 0, attempts = (\<lambda>sid. 0)\<rparr>"

section \<open>The cost hook of the Call model (\<open>Call.model.js\<close>)\<close>

text \<open>
  Amounts are exact real numbers: the rounding of the source's doubles is not modelled.
  A number of the metrics is \<open>None\<close> when it is not set.  The unit rates are what
  \<open>parseFloat\<close> reads from the process environment (with the defaults of the source); the
  other rates are constants of the hook.
\<close>

record metrics =
  avgResponseTime :: "real option"
  maxResponseTime :: "real option"
  sttAccuracy :: "real option"
  ttsCharacters :: "real option"
  gptTokensInput :: "real option"
  gptTokensOutput :: "real option"
  gptModel :: "string option"

record costBreakdown =
  twilio :: real
  googleSTT :: real
  googleTTS :: real
  openAI :: real
  total :: real



text \<open>The part of a Call document that the hook reads or writes, and one field that it
  does neither (the \<open>notes\<close> of the call).\<close>

record costedCall =
  duration :: real
  callMetrics :: "metrics option"
  costs :: costBreakdown
  errorCount :: nat
  hadErrors :: bool
  callNotes :: string








section \<open>Concrete inputs\<close>

text \<open>A business as the seed script configures it (largest party 15), a call id, healthy
  collaborators whose language model answers "ok" with 42 tokens, and utterances of the
  intents \<open>general\<close> (a greeting), \<open>confirm\<close> (yes), \<open>hours\<close> (when is it open) and
  \<open>reservation\<close> (I want to book a table).\<close>

definition demoBid :: jstring where
  "demoBid = [98, 49]"

definition demoBusiness :: business where
  "demoBusiness = \<lparr>b_id = demoBid, greeting = [104, 105], goodbyeMessage = None,
     enableAutoFAQ = False, maxPartySize = 15\<rparr>"

definition demoSid :: jstring where
  "demoSid = [67, 65, 49]"

definition otherSid :: jstring where
  "otherSid = [67, 65, 50]"

definition demoDate :: jstring where
  "demoDate = [50, 48, 51, 48, 45, 48, 49, 45, 48, 49]"

definition demoTime :: jstring where
  "demoTime = [49, 57, 58, 48, 48]"

definition demoReply :: jstring where
  "demoReply = [111, 107]"

text \<open>\<open>new Date('2030-01-01')\<close> is 1893456000000; any other string is taken as invalid.\<close>

definition demoEnv :: env where
  "demoEnv = \<lparr>now = 1000, completion = Some (demoReply, 42), extraction = None, ttsOk = True,
     storeOk = True,
     dateOf = (\<lambda>s. if s = demoDate then Some 1893456000000 else None)\<rparr>"



definition uHours :: jstring where
  "uHours = [1502, 1514, 1497, 32, 1508, 1514, 1493, 1495]"


text \<open>An extraction that fills the whole draft: a party of 30 on 2030-01-01 at 19:00.\<close>

definition fullExtraction :: extracted where
  "fullExtraction = \<lparr>x_date = Some (Some demoDate), x_time = Some (Some demoTime),
     x_partySize = Some (Some 30), x_customerName = Some (Some [68, 97, 110, 97]),
     x_customerPhone = Some (Some [48, 53, 48, 49, 50, 51, 52, 53, 54, 55]),
     x_specialRequests = None\<rparr>"

definition demoBusinesses :: "jstring \<rightharpoonup> business" where
  "demoBusinesses = [demoBid \<mapsto> demoBusiness]"

definition demoWorld :: world where
  "demoWorld = initialWorld demoBusinesses True"

text \<open>The session of a call as it stands when its draft has just been completed by
  \<open>fullExtraction\<close>.\<close>

definition bookingSession :: "jstring \<Rightarrow> callState" where
  "bookingSession sid =
     \<lparr>callId = sid, businessId = demoBid, conversation = [], currentIntent = Some reservation,
      reservationData = mergeDraft emptyDraft fullExtraction, turnCount = 1, startTime = 1000,
      timeoutCount = None\<rparr>"



text \<open>The FAQ cache after the question about opening hours was answered once, and the
  collaborators one hour minus one millisecond later, with the language model down.\<close>

definition cacheAfterHours :: faqCache where
  "cacheAfterHours = fst (snd (generateResponse demoEnv Map.empty demoBusiness uHours []))"

definition laterEnv :: env where
  "laterEnv = demoEnv\<lparr>now := 3600999, completion := None\<rparr>"












section \<open>Slot capacity\<close>

lemma startOfDay_same_day:
  assumes "startOfDay d \<le> x" and "x \<le> endOfDay d"
  shows "startOfDay x = startOfDay d"
proof -
  define k where "k = d div 86400000"
  have b: "0 \<le> x - 86400000 * k" "x - 86400000 * k < 86400000"
    using assms by (simp_all add: startOfDay_def endOfDay_def k_def)
  have "x = 86400000 * k + (x - 86400000 * k)" by simp
  then have "x div 86400000 = k"
    using b by (rule int_div_pos_eq)
  then show ?thesis by (simp add: startOfDay_def k_def)
qed

lemma existingReservations_same_day:
  assumes "startOfDay d \<le> x" and "x \<le> endOfDay d"
  shows "existingReservations rs bid x t = existingReservations rs bid d t"
  using startOfDay_same_day[OF assms] by (simp add: existingReservations_def endOfDay_def)

lemma occupancy_append:
  "occupancy (rs @ [r]) bid d t =
     occupancy rs bid d t +
       (if r_business r = bid \<and> startOfDay d \<le> r_date r \<and> r_date r \<le> endOfDay d \<and> r_time r = t
           \<and> (r_status r = pending \<or> r_status r = confirmed) then partySize r else 0)"
  by (auto simp: occupancy_def existingReservations_def)

lemma reservations_emitCallEvent [simp]: "reservations (emitCallEvent w ev x) = reservations w"
  by (simp add: emitCallEvent_def)

text \<open>One uninterrupted \<open>createReservation\<close> never takes a slot above the constant
  capacity: the reservation it adds was admitted against the occupancy of the very day
  and time it is stored under.\<close>

lemma booking_respects_capacity:
  assumes "occupancy (reservations w) bid d t \<le> maxCapacityPerSlot"
  shows "occupancy (reservations (snd (createReservation w e cs b))) bid d t \<le> maxCapacityPerSlot"
proof (cases "bookingCheck (w\<lparr>attempts := (attempts w)(callId cs := attempts w (callId cs) + 1)\<rparr>) e cs b")
  case None
  then show ?thesis using assms by (simp add: createReservation_def Let_def)
next
  case (Some inp)
  then obtain ds tm n date a where
    parts: "d_date (reservationData cs) = Some ds" "d_time (reservationData cs) = Some tm"
           "d_partySize (reservationData cs) = Some n" "dateOf e ds = Some date"
           "checkAvailability (businesses w) (reservations w) (b_id b) date tm n = Inr a"
           "available a"
           "in_business inp = b_id b" "in_date inp = date" "in_time inp = tm" "in_partySize inp = n"
    by (auto simp: bookingCheck_def Let_def split: if_splits option.splits sum.splits)
  from parts(5,6) have fits: "occupancy (reservations w) (b_id b) date tm + n \<le> maxCapacityPerSlot"
    by (auto simp: checkAvailability_def occupancy_def Let_def split: option.splits)
  show ?thesis
  proof (cases "reservationCreate (reservations w) inp")
    case (Inl err)
    then show ?thesis using assms Some by (simp add: createReservation_def bookingCommit_def Let_def)
  next
    case (Inr rs)
    then obtain r where r: "rs = reservations w @ [r]" "r_business r = b_id b" "r_date r = date"
        "r_time r = tm" "partySize r = n" "r_status r = confirmed"
      using parts(7-10) by (auto simp: reservationCreate_def split: option.splits if_splits)
    have res: "reservations (snd (createReservation w e cs b)) = reservations w @ [r]"
      using Some Inr r(1) by (simp add: createReservation_def bookingCommit_def Let_def)
    show ?thesis
    proof (cases "b_id b = bid \<and> startOfDay d \<le> date \<and> date \<le> endOfDay d \<and> tm = t")
      case True
      then have "existingReservations (reservations w) bid date t =
                 existingReservations (reservations w) bid d t"
        using existingReservations_same_day by blast
      then have "occupancy (reservations w) (b_id b) date tm = occupancy (reservations w) bid d t"
        using True by (simp add: occupancy_def)
      then show ?thesis using fits True r unfolding res occupancy_append by simp
    next
      case False
      then show ?thesis using assms r unfolding res occupancy_append by auto
    qed
  qed
qed

text \<open>
  C1, as the code has it.  The claim promises that no number of concurrent booking attempts
  takes a slot above its capacity.  The code checks and writes in two separate steps with
  nothing that revalidates, so the promise holds for attempts that run one after the
  other: handled in sequence, any number of \<open>createReservation\<close> invocations leave every
  slot that was within the capacity of 50 within it.
\<close>

theorem sequential_bookings_respect_capacity:
  assumes "occupancy (reservations w) bid d t \<le> maxCapacityPerSlot"
  shows "occupancy (reservations (snd (sequential w xs))) bid d t \<le> maxCapacityPerSlot"
  using assms
proof (induction xs arbitrary: w)
  case Nil
  then show ?case by simp
next
  case (Cons x xs)
  obtain e cs b where x: "x = (e, cs, b)" by (cases x) auto
  have "occupancy (reservations (snd (createReservation w e cs b))) bid d t \<le> maxCapacityPerSlot"
    using Cons.prems by (rule booking_respects_capacity)
  from Cons.IH[OF this] show ?case
    by (simp add: x case_prod_unfold Let_def)
qed

text \<open>Scenario A in sequence: of two parties of 30 for the same slot the first is booked,
  the second is refused, and the slot holds 30 guests.\<close>

theorem sequential_bookings_respect_capacity_witness:
  "occupancy (reservations demoWorld) demoBid 1893456000000 demoTime \<le> maxCapacityPerSlot \<and>
   occupancy (reservations (snd (sequential demoWorld
       [(demoEnv, bookingSession demoSid, demoBusiness),
        (demoEnv, bookingSession otherSid, demoBusiness)]))) demoBid 1893456000000 demoTime
     \<le> maxCapacityPerSlot \<and>
   fst (sequential demoWorld
       [(demoEnv, bookingSession demoSid, demoBusiness),
        (demoEnv, bookingSession otherSid, demoBusiness)]) = [True, False] \<and>
   occupancy (reservations (snd (sequential demoWorld
       [(demoEnv, bookingSession demoSid, demoBusiness),
        (demoEnv, bookingSession otherSid, demoBusiness)]))) demoBid 1893456000000 demoTime = 30"
proof -
  have h: "occupancy (reservations demoWorld) demoBid 1893456000000 demoTime \<le> maxCapacityPerSlot"
    by code_simp
  have r: "fst (sequential demoWorld
       [(demoEnv, bookingSession demoSid, demoBusiness),
        (demoEnv, bookingSession otherSid, demoBusiness)]) = [True, False]"
    by code_simp
  have o: "occupancy (reservations (snd (sequential demoWorld
       [(demoEnv, bookingSession demoSid, demoBusiness),
        (demoEnv, bookingSession otherSid, demoBusiness)]))) demoBid 1893456000000 demoTime = 30"
    by code_simp
  from sequential_bookings_respect_capacity[OF h] h r o show ?thesis by blast
qed

text \<open>The claim as stated fails: when the two invocations of Scenario A interleave (both
  check, then both write), both create their reservation and the slot holds 60 guests.\<close>

theorem concurrent_bookings_exceed_capacity:
  "map taskResult (fst (interleave demoWorld
          [Waiting demoEnv (bookingSession demoSid) demoBusiness,
           Waiting demoEnv (bookingSession otherSid) demoBusiness] [0, 1, 0, 1]))
     = [Some True, Some True] \<and>
   occupancy (reservations (snd (interleave demoWorld
          [Waiting demoEnv (bookingSession demoSid) demoBusiness,
           Waiting demoEnv (bookingSession otherSid) demoBusiness] [0, 1, 0, 1])))
       demoBid 1893456000000 demoTime = 60 \<and>
   maxCapacityPerSlot = 50"
  by code_simp

text \<open>
  C2.  The claim takes the capacity of a slot from the business's configuration.  The
  availability check looks the business up and then compares against the constant 50,
  whatever the business configures.
\<close>

theorem capacity_is_the_constant:
  assumes "bs bid = Some b"
  shows "checkAvailability bs rs bid d t requested =
           Inr \<lparr>available = (occupancy rs bid d t + requested \<le> 50),
                currentBookings = length (existingReservations rs bid d t),
                currentGuests = occupancy rs bid d t,
                remainingCapacity = 50 - occupancy rs bid d t\<rparr>"
  using assms by (simp add: checkAvailability_def occupancy_def maxCapacityPerSlot_def Let_def)

text \<open>The seeded business allows parties of 15; a party of 30 is reported available on an
  empty slot, with 50 places remaining.\<close>

theorem capacity_is_the_constant_witness:
  "demoBusinesses demoBid = Some demoBusiness \<and>
   maxPartySize demoBusiness = 15 \<and>
   checkAvailability demoBusinesses [] demoBid 1893456000000 demoTime 30 =
     Inr \<lparr>available = True, currentBookings = 0, currentGuests = 0, remainingCapacity = 50\<rparr>"
proof -
  have h: "demoBusinesses demoBid = Some demoBusiness" by (simp add: demoBusinesses_def)
  have z: "occupancy [] demoBid 1893456000000 demoTime = 0"
          "existingReservations [] demoBid 1893456000000 demoTime = []"
    by (simp_all add: occupancy_def existingReservations_def)
  show ?thesis
    using capacity_is_the_constant[of demoBusinesses demoBid demoBusiness "[]" 1893456000000
        demoTime 30] z h
    by (simp add: demoBusiness_def)
qed

section \<open>The response pipeline\<close>

text \<open>
  C8.  An utterance whose key \<open>faq:businessId:normalized text\<close> has a live entry in the FAQ
  cache (one that expires at or after the current time) is answered from the cache: the
  response carries the cached answer and intent, \<open>tokensUsed = 0\<close> and the model \<open>cache\<close>; the
  language model is not called (the count of calls is 0), neither model selection nor
  extraction takes place, and the cache is left as it was.
\<close>

theorem faq_cache_hit_skips_generation:
  assumes "c (faqKey (b_id b) userMessage) = Some (f, expires)" and "now e \<le> expires"
  shows "generateResponse e c b userMessage history =
           (\<lparr>resp_text = answer f, resp_intent = faqIntent f, resp_source = Some faq_cache,
             tokensUsed = Some 0, resp_model = Some cacheHit, extractedData = None,
             resp_error = False\<rparr>, c, 0)"
  using assms by (simp add: generateResponse_def checkFAQCache_def cacheGet_def)

text \<open>Scenario C: the question about opening hours, answered once at time 1000 and cached
  until 3601000, is asked again at 3600999 while the language model is down.\<close>

theorem faq_cache_hit_skips_generation_witness:
  "cacheAfterHours (faqKey (b_id demoBusiness) uHours) =
     Some (\<lparr>answer = demoReply, faqIntent = hours, cachedAt = 1000\<rparr>, 3601000) \<and>
   now laterEnv \<le> 3601000 \<and>
   generateResponse laterEnv cacheAfterHours demoBusiness uHours [] =
     (\<lparr>resp_text = demoReply, resp_intent = hours, resp_source = Some faq_cache,
       tokensUsed = Some 0, resp_model = Some cacheHit, extractedData = None,
       resp_error = False\<rparr>, cacheAfterHours, 0)"
proof -
  have h1: "cacheAfterHours (faqKey (b_id demoBusiness) uHours) =
     Some (\<lparr>answer = demoReply, faqIntent = hours, cachedAt = 1000\<rparr>, 3601000)"
    by code_simp
  have h2: "now laterEnv \<le> 3601000"
    by (simp add: laterEnv_def)
  from faq_cache_hit_skips_generation[of cacheAfterHours demoBusiness uHours
      "\<lparr>answer = demoReply, faqIntent = hours, cachedAt = 1000\<rparr>" 3601000 laterEnv "[]", OF h1 h2]
    h1 h2 show ?thesis by simp
qed

section \<open>The turn cap\<close>







section \<open>Cost recomputation\<close>









section \<open>What the handlers leave alone\<close>

lemma activeCalls_emitCallEvent [simp]: "activeCalls (emitCallEvent w ev x) = activeCalls w"
  by (simp add: emitCallEvent_def)

lemma calls_emitCallEvent [simp]: "calls (emitCallEvent w ev x) = calls w"
  by (simp add: emitCallEvent_def)

lemma attempts_emitCallEvent [simp]: "attempts (emitCallEvent w ev x) = attempts w"
  by (simp add: emitCallEvent_def)

lemma modelCalls_emitCallEvent [simp]: "modelCalls (emitCallEvent w ev x) = modelCalls w"
  by (simp add: emitCallEvent_def)

lemma activeCalls_createReservation [simp]:
  "activeCalls (snd (createReservation w e cs b)) = activeCalls w"
  by (simp add: createReservation_def bookingCommit_def Let_def split: option.splits sum.splits)

lemma calls_createReservation [simp]:
  "calls (snd (createReservation w e cs b)) = calls w"
  by (simp add: createReservation_def bookingCommit_def Let_def split: option.splits sum.splits)

lemma modelCalls_createReservation [simp]:
  "modelCalls (snd (createReservation w e cs b)) = modelCalls w"
  by (simp add: createReservation_def bookingCommit_def Let_def split: option.splits sum.splits)





section \<open>Recognition confidence\<close>










section \<open>Failures of the language model\<close>






section \<open>Events after the end of a call\<close>







section \<open>Silence\<close>

text \<open>The first timeout of a session counts 1, re-prompts and gathers again.\<close>

lemma timeout_below_two_reprompts:
  assumes "activeCalls w sid = Some cs" and "timeoutCount cs = None \<or> timeoutCount cs = Some 0"
    and "ttsOk e"
  shows "handleTimeout w e (Some b) sid =
           (Inr [Play promptMessage, Gather, Redirect endRoute],
            w\<lparr>activeCalls := (activeCalls w)(sid \<mapsto> cs\<lparr>timeoutCount := Some 1\<rparr>)\<rparr>)"
  using assms by (auto simp add: handleTimeout_def Let_def)

text \<open>A later timeout ends the call, removes the session and emits \<open>call:ended\<close> with reason
  \<open>timeout\<close>, when the collaborators work and the session's intent is one that the Call
  schema stores.\<close>

lemma second_timeout_ends_storable_call:
  assumes "activeCalls w sid = Some cs" and "timeoutCount cs = Some k" and "1 \<le> k"
    and "primaryIntentEnum (case currentIntent cs of None \<Rightarrow> general | Some i \<Rightarrow> i)"
    and "ttsOk e" and "storeOk e"
  shows "fst (handleTimeout w e (Some b) sid) = Inr [Play (goodbyeText b), Hangup] \<and>
         activeCalls (snd (handleTimeout w e (Some b) sid)) sid = None \<and>
         emitted (snd (handleTimeout w e (Some b) sid)) =
           emitted w @ (if io w then [(AdminRoom, CallEnded sid (Some (b_id b)) timeout
                                         (durationSeconds (now e) (startTime cs))),
                                      (BusinessRoom (b_id b), CallEnded sid (Some (b_id b)) timeout
                                         (durationSeconds (now e) (startTime cs)))] else [])"
  using assms
  by (auto simp add: handleTimeout_def handleCallEnd_def finalizeCall_def Let_def emitCallEvent_def
      split: option.splits)







section \<open>One booking per call\<close>


lemma attempts_handleCallEnd [simp]:
  "attempts (snd (handleCallEnd w e sid reason cso bo)) = attempts w"
  by (simp add: handleCallEnd_def finalizeCall_def Let_def split: option.splits prod.splits if_splits)


























end
